theory Spec2Isabelle
  imports Complex_Main "HOL-Library.AList" "HOL-Library.Sublist"
begin

section \<open>Data model of \<^verbatim>\<open>daily_top10.py\<close>\<close>

text \<open>
  A \<^verbatim>\<open>datetime\<close> is the number of microseconds since 1970-01-01T00:00:00 (UTC for the
  timezone-aware values, local wall time for the naive one). The target date, which the
  source passes around as a \<^verbatim>\<open>'%Y-%m-%d'\<close> string, is the number of the day it denotes (days
  since 1970-01-01); \<^verbatim>\<open>strptime(target_date, '%Y-%m-%d').replace(tzinfo=UTC)\<close> of such a string
  is midnight UTC of that day. Scores are Python floats in the source; they are real numbers
  here (the scorer is documented as returning a real number, so NaN is left out).
\<close>

type_synonym datetime = int
type_synonym date = int

definition timedelta_days :: "int \<Rightarrow> int" where
  "timedelta_days n = n * 86400000000"

definition strptime :: "date \<Rightarrow> datetime" where
  "strptime d = d * 86400000000"

text \<open>The calendar date of a day number (proleptic Gregorian calendar), as \<^verbatim>\<open>datetime\<close>
  computes it: year, month, day.\<close>

definition civil_from_days :: "int \<Rightarrow> int \<times> int \<times> int" where
  "civil_from_days z0 =
     (let z = z0 + 719468;
          era = z div 146097;
          doe = z - era * 146097;
          yoe = (doe - doe div 1460 + doe div 36524 - doe div 146096) div 365;
          y = yoe + era * 400;
          doy = doe - (365 * yoe + yoe div 4 - yoe div 100);
          mp = (5 * doy + 2) div 153;
          d = doy - (153 * mp + 2) div 5 + 1;
          m = (if mp < 10 then mp + 3 else mp - 9)
      in (if m \<le> 2 then y + 1 else y, m, d))"

definition digit :: "int \<Rightarrow> char" where
  "digit n = ''0123456789'' ! nat (n mod 10)"

definition pad2 :: "int \<Rightarrow> string" where
  "pad2 n = [digit (n div 10), digit n]"

definition pad4 :: "int \<Rightarrow> string" where
  "pad4 n = [digit (n div 1000), digit (n div 100), digit (n div 10), digit n]"

text \<open>\<^verbatim>\<open>strftime('%Y-%m-%d')\<close>, \<^verbatim>\<open>strftime('%Y%m%d')\<close> and \<^verbatim>\<open>strftime('%Y%m%d_%H%M%S')\<close>, for
  years 1000 to 9999.\<close>

definition strftime_Y_m_d :: "datetime \<Rightarrow> string" where
  "strftime_Y_m_d t =
     (case civil_from_days (t div 86400000000) of
        (y, m, d) \<Rightarrow> pad4 y @ ''-'' @ pad2 m @ ''-'' @ pad2 d)"

definition strftime_Ymd :: "datetime \<Rightarrow> string" where
  "strftime_Ymd t =
     (case civil_from_days (t div 86400000000) of
        (y, m, d) \<Rightarrow> pad4 y @ pad2 m @ pad2 d)"

definition strftime_Ymd_HMS :: "datetime \<Rightarrow> string" where
  "strftime_Ymd_HMS t =
     (let s = (t mod 86400000000) div 1000000
      in strftime_Ymd t @ ''_'' @ pad2 (s div 3600) @ pad2 ((s div 60) mod 60) @ pad2 (s mod 60))"

text \<open>An \<^verbatim>\<open>arxiv.Result\<close>, with the attributes the program reads.\<close>

record paper =
  entry_id :: string
  title :: string
  authors :: "string list"
  categories :: "string list"
  summary :: string
  published :: datetime
  updated :: datetime

text \<open>A Python exception, with its message.\<close>

datatype exn = Exn string

text \<open>What \<^verbatim>\<open>client.results(search)\<close> does when it is iterated: it yields a paper and goes on,
  ends, or raises. The query asks for at most 200 results, so the generator is finite.\<close>

datatype feed = Stop | Fail exn | Yield paper feed

text \<open>A value stored in one of the dictionaries of \<^verbatim>\<open>paper_scores\<close>; such a dictionary is the
  list of its items in insertion order.\<close>

datatype cell = CInt int | CStr string | CNum real

type_synonym row = "(string \<times> cell) list"

text \<open>The dictionary that \<^verbatim>\<open>paper_analyzer.analyze_paper\<close> returns: items in insertion order.\<close>

type_synonym result = "(string \<times> cell) list"

text \<open>A \<^verbatim>\<open>pandas.DataFrame\<close> with the default index: the column labels and, for each row,
  the value under each column (\<open>None\<close> where the row has no such key).\<close>

record dataframe =
  columns :: "string list"
  cells :: "cell option list list"

datatype content = Csv dataframe | Json "result list"

text \<open>What the program prints: one constructor for each \<^verbatim>\<open>print\<close> of the source, holding
  the values that are interpolated into the line.\<close>

datatype msg =
    MsgNotFound date nat
  | MsgCollectError exn
  | MsgTop10 date
  | MsgTableHeader
  | MsgRule
  | MsgRow "cell option list"
  | MsgCsvSaved string
  | MsgAnalyzing
  | MsgAnalysisStart cell
  | MsgAnalysisDone cell
  | MsgAnalysisSaved string
  | MsgHtml
  | MsgHtmlDone string
  | MsgEmail
  | MsgFetching date
  | MsgTotal nat
  | MsgError exn

text \<open>The effects of the program, in the order in which it performs them.\<close>

datatype event =
    Print msg
  | Sleep
  | MakeDirs string
  | WriteFile string content
  | GenerateReport "result list"
  | SendReport "result list"

section \<open>\<^verbatim>\<open>get_specific_date_papers\<close>\<close>

text \<open>The local variables of the collecting loop, and what it has printed and slept.\<close>

record scan_state =
  papers :: "paper list"
  error_retries :: nat
  target_start :: datetime
  out :: "event list"

datatype ctl = Next scan_state | Break

text \<open>One pass through the body of the \<^verbatim>\<open>for\<close> loop, lines 38 to 53: \<open>Next\<close> goes on with
  the following item of the feed (\<^verbatim>\<open>continue\<close>, or the end of the body), \<open>Break\<close> leaves the
  loop.\<close>

definition loop_body :: "date \<Rightarrow> datetime \<Rightarrow> paper \<Rightarrow> scan_state \<Rightarrow> ctl" where
  "loop_body target_date target_end p st =
     (if published p \<ge> target_end then Next st
      else if published p < target_start st then
        (if length (papers st) = 0 \<and> error_retries st < 3 then
           Next (st\<lparr>error_retries := error_retries st + 1,
                     out := out st @ [Print (MsgNotFound target_date (error_retries st + 1))],
                     target_start := target_start st - timedelta_days 1\<rparr>)
         else Break)
      else Next (st\<lparr>papers := papers st @ [p], out := out st @ [Sleep]\<rparr>))"

text \<open>The \<^verbatim>\<open>for\<close> loop inside the \<^verbatim>\<open>try\<close>: the state when the loop is left, and the
  exception if the feed raised one.\<close>

fun scan :: "date \<Rightarrow> datetime \<Rightarrow> feed \<Rightarrow> scan_state \<Rightarrow> scan_state \<times> exn option" where
  "scan target_date target_end Stop st = (st, None)"
| "scan target_date target_end (Fail e) st = (st, Some e)"
| "scan target_date target_end (Yield p rest) st =
     (case loop_body target_date target_end p st of
        Break \<Rightarrow> (st, None)
      | Next st' \<Rightarrow> scan target_date target_end rest st')"

text \<open>The states in which the loop asks the feed for its next item, in order.\<close>

fun scan_states :: "date \<Rightarrow> datetime \<Rightarrow> feed \<Rightarrow> scan_state \<Rightarrow> scan_state list" where
  "scan_states target_date target_end Stop st = [st]"
| "scan_states target_date target_end (Fail e) st = [st]"
| "scan_states target_date target_end (Yield p rest) st =
     st # (case loop_body target_date target_end p st of
             Break \<Rightarrow> []
           | Next st' \<Rightarrow> scan_states target_date target_end rest st')"

definition initial_state :: "date \<Rightarrow> scan_state" where
  "initial_state target_date =
     \<lparr>papers = [], error_retries = 0, target_start = strptime target_date, out = []\<rparr>"

definition target_end_of :: "date \<Rightarrow> datetime" where
  "target_end_of target_date = strptime target_date + timedelta_days 1"

text \<open>The state in which \<^verbatim>\<open>get_specific_date_papers\<close> leaves its loop, and the exception
  that ended it.\<close>

definition collect_scan :: "date \<Rightarrow> feed \<Rightarrow> scan_state \<times> exn option" where
  "collect_scan target_date fd =
     scan target_date (target_end_of target_date) fd (initial_state target_date)"

text \<open>\<^verbatim>\<open>get_specific_date_papers\<close>: what it has printed, and the exception it raises or the
  list it returns.\<close>

definition get_specific_date_papers :: "date \<Rightarrow> feed \<Rightarrow> event list \<times> (exn + paper list)" where
  "get_specific_date_papers target_date fd =
     (case collect_scan target_date fd of
        (st, None) \<Rightarrow> (out st, Inr (papers st))
      | (st, Some e) \<Rightarrow>
          (out st @ [Print (MsgCollectError e)],
           if papers st = [] then Inl e else Inr (papers st)))"

text \<open>Whether iterating the whole feed ends in the exception \<open>e\<close>.\<close>

fun feed_raises :: "feed \<Rightarrow> exn \<Rightarrow> bool" where
  "feed_raises Stop e = False"
| "feed_raises (Fail e') e = (e' = e)"
| "feed_raises (Yield p rest) e = feed_raises rest e"

text \<open>The feed that yields the papers of a list and then ends as \<open>fin\<close> says.\<close>

fun feed_of :: "paper list \<Rightarrow> feed \<Rightarrow> feed" where
  "feed_of [] fin = fin"
| "feed_of (p # ps) fin = Yield p (feed_of ps fin)"

section \<open>\<^verbatim>\<open>save_top10\<close>\<close>

text \<open>\<^verbatim>\<open>s.replace('\n', ' ')\<close> and \<^verbatim>\<open>sep.join(xs)\<close>.\<close>

definition replace_nl :: "string \<Rightarrow> string" where
  "replace_nl s = map (\<lambda>c. if c = CHR 0x0A then CHR '' '' else c) s"

fun join :: "string \<Rightarrow> string list \<Rightarrow> string" where
  "join sep [] = []"
| "join sep [x] = x"
| "join sep (x # y # ys) = x @ sep @ join sep (y # ys)"

text \<open>The dictionary literal of lines 66 to 76, for one paper and its score.\<close>

definition score_row :: "(paper \<Rightarrow> real) \<Rightarrow> paper \<Rightarrow> row" where
  "score_row analyzer p =
     [(''rank'', CInt 0),
      (''title'', CStr (replace_nl (title p))),
      (''url'', CStr (entry_id p)),
      (''score'', CNum (analyzer p)),
      (''authors'', CInt (int (length (authors p)))),
      (''categories'', CStr (join '', '' (categories p))),
      (''published'', CStr (strftime_Y_m_d (published p))),
      (''updated'', CStr (strftime_Y_m_d (updated p))),
      (''abstract'', CStr (replace_nl (summary p)))]"

text \<open>The first loop of \<^verbatim>\<open>save_top10\<close>: it appends one dictionary for each paper, in order.\<close>

fun paper_scores :: "(paper \<Rightarrow> real) \<Rightarrow> paper list \<Rightarrow> row list" where
  "paper_scores analyzer [] = []"
| "paper_scores analyzer (p # ps) = score_row analyzer p # paper_scores analyzer ps"

text \<open>The sort key \<^verbatim>\<open>lambda x: x['score']\<close>. Every dictionary that \<^verbatim>\<open>save_top10\<close> sorts was
  built by the literal above and holds a float under \<^verbatim>\<open>'score'\<close>; the other cases, in which
  Python would raise, do not arise there and are given the value 0.\<close>

definition score_key :: "row \<Rightarrow> real" where
  "score_key x = (case map_of x ''score'' of Some (CNum s) \<Rightarrow> s | _ \<Rightarrow> 0)"

text \<open>\<^verbatim>\<open>list.sort(key=..., reverse=True)\<close>. Python's sort is stable, and with \<^verbatim>\<open>reverse=True\<close>
  elements with equal keys still keep their original order. A list has exactly one stable
  arrangement in descending key order, so an insertion sort that puts each element in front of
  the first element whose key is not greater describes the result.\<close>

fun insort_reverse :: "('a \<Rightarrow> real) \<Rightarrow> 'a \<Rightarrow> 'a list \<Rightarrow> 'a list" where
  "insort_reverse key x [] = [x]"
| "insort_reverse key x (y # ys) =
     (if key y \<le> key x then x # y # ys else y # insort_reverse key x ys)"

definition sort_reverse :: "('a \<Rightarrow> real) \<Rightarrow> 'a list \<Rightarrow> 'a list" where
  "sort_reverse key xs = foldr (insort_reverse key) xs []"

text \<open>\<^verbatim>\<open>for i, paper in enumerate(top10, i0): paper['rank'] = i\<close>. Assigning to a key that the
  dictionary has keeps the key at its place.\<close>

fun assign_ranks :: "int \<Rightarrow> row list \<Rightarrow> row list" where
  "assign_ranks i [] = []"
| "assign_ranks i (r # rs) = AList.update ''rank'' (CInt i) r # assign_ranks (i + 1) rs"

text \<open>\<^verbatim>\<open>pd.DataFrame(rows)\<close> for a list of dictionaries: the columns are the keys of the
  dictionaries in the order in which they first occur, and a list with no dictionary gives a
  frame with no column.\<close>

definition add_keys :: "string list \<Rightarrow> string list \<Rightarrow> string list" where
  "add_keys cols ks = cols @ filter (\<lambda>k. k \<notin> set cols) ks"

definition DataFrame :: "row list \<Rightarrow> dataframe" where
  "DataFrame ds =
     (let cols = foldl add_keys [] (map (map fst) ds)
      in \<lparr>columns = cols, cells = map (\<lambda>d. map (map_of d) cols) ds\<rparr>)"

text \<open>The values that line 98 prints for one row of the frame, the title cut to 70
  characters. The frame was built from \<^verbatim>\<open>top10\<close>, so its rows hold the values of those
  dictionaries.\<close>

definition display_title :: "cell option \<Rightarrow> cell option" where
  "display_title c =
     (case c of
        Some (CStr t) \<Rightarrow> Some (CStr (if length t > 70 then take 70 t @ ''...'' else t))
      | _ \<Rightarrow> c)"

definition display_row :: "row \<Rightarrow> cell option list" where
  "display_row r =
     [map_of r ''rank'', display_title (map_of r ''title''), map_of r ''url'', map_of r ''score'',
      map_of r ''authors'', map_of r ''categories'', map_of r ''published'', map_of r ''updated'']"

text \<open>\<^verbatim>\<open>save_top10\<close>, with the reading of the UTC clock in line 102: its effects, and the list
  it returns.\<close>

definition save_top10 ::
  "paper list \<Rightarrow> (paper \<Rightarrow> real) \<Rightarrow> date \<Rightarrow> datetime \<Rightarrow> event list \<times> row list" where
  "save_top10 ps analyzer target_date now =
     (let sorted_scores = sort_reverse score_key (paper_scores analyzer ps);
          top10 = assign_ranks 1 (take 10 sorted_scores);
          df = DataFrame top10;
          current_date = strftime_Ymd now;
          csv_file = ''data/daily_top10/top10_'' @ current_date @ ''.csv''
      in ([Print (MsgTop10 target_date), Print MsgTableHeader, Print MsgRule]
          @ map (\<lambda>r. Print (MsgRow (display_row r))) top10
          @ [MakeDirs ''data/daily_top10'', WriteFile csv_file (Csv df),
             Print (MsgCsvSaved csv_file)],
          top10))"

text \<open>The column labels of the CSV file of a run that ranked at least one paper.\<close>

definition csv_columns :: "string list" where
  "csv_columns = [''rank'', ''title'', ''url'', ''score'', ''authors'', ''categories'',
                  ''published'', ''updated'', ''abstract'']"

section \<open>\<^verbatim>\<open>analyze_and_generate_report\<close> and \<^verbatim>\<open>run_daily_top10\<close>\<close>

text \<open>What the program is run against: the feed of the arXiv client, the collaborators
  (\<^verbatim>\<open>PaperQualityAnalyzer.analyze_paper\<close>, \<^verbatim>\<open>PaperAnalyzer.analyze_paper\<close>,
  \<^verbatim>\<open>AnalysisManager.generate_report\<close>, \<^verbatim>\<open>EmailSender.send_report\<close>), of which the last three
  may raise, and the three readings of the clock (lines 159, 102 and 135; the last one is
  local time). The constructors of the collaborators and the writes to the file system are
  taken to succeed, and \<^verbatim>\<open>PaperAnalyzer.analyze_paper\<close> to leave the dictionary it is given
  as it is and to return a dictionary of its own at each call.\<close>

record env =
  client_results :: feed
  quality_score :: "paper \<Rightarrow> real"
  analyze_paper :: "row \<Rightarrow> exn + result"
  generate_report :: "result list \<Rightarrow> exn + string"
  send_report :: "result list \<Rightarrow> exn option"
  now_run :: datetime
  now_csv :: datetime
  now_json :: datetime

text \<open>\<^verbatim>\<open>d[k]\<close> on a dictionary: the value, or a \<^verbatim>\<open>KeyError\<close>.\<close>

definition getitem :: "row \<Rightarrow> string \<Rightarrow> exn + cell" where
  "getitem d k = (case map_of d k of None \<Rightarrow> Inl (Exn (''KeyError: '' @ k)) | Some v \<Rightarrow> Inr v)"

text \<open>The loop of lines 125 to 132 over the papers that are left, with \<^verbatim>\<open>analysis_results\<close>
  as collected so far: what it prints, and the exception that ends it or the final list.\<close>

fun analyze_papers ::
  "(row \<Rightarrow> exn + result) \<Rightarrow> row list \<Rightarrow> result list \<Rightarrow> event list \<times> (exn + result list)" where
  "analyze_papers analyze [] analysis_results = ([], Inr analysis_results)"
| "analyze_papers analyze (paper # rest) analysis_results =
     (case getitem paper ''title'' of
        Inl e \<Rightarrow> ([], Inl e)
      | Inr t \<Rightarrow>
          (case analyze paper of
             Inl e \<Rightarrow> ([Print (MsgAnalysisStart t)], Inl e)
           | Inr res \<Rightarrow>
               (case getitem paper ''published'' of
                  Inl e \<Rightarrow> ([Print (MsgAnalysisStart t)], Inl e)
                | Inr pub \<Rightarrow>
                    (case getitem paper ''url'' of
                       Inl e \<Rightarrow> ([Print (MsgAnalysisStart t)], Inl e)
                     | Inr u \<Rightarrow>
                         (case analyze_papers analyze rest
                                 (analysis_results @
                                    [AList.update ''html_url'' u
                                       (AList.update ''submission_date'' pub res)]) of
                            (evs, r) \<Rightarrow>
                              (Print (MsgAnalysisStart t) # Print (MsgAnalysisDone t) # evs, r))))))"

text \<open>\<^verbatim>\<open>analyze_and_generate_report\<close>: its effects in order, and the exception it raises or
  the list it returns. \<open>GenerateReport\<close> and \<open>SendReport\<close> are the calls of the renderer and
  of the mailer.\<close>

definition analyze_and_generate_report ::
  "env \<Rightarrow> paper list \<Rightarrow> date \<Rightarrow> event list \<times> (exn + result list)" where
  "analyze_and_generate_report env ps target_date =
     (case save_top10 ps (quality_score env) target_date (now_csv env) of
        (ev1, top10_papers) \<Rightarrow>
          (let pre = [Print MsgAnalyzing, MakeDirs ''data/analysis'', MakeDirs ''config''] @ ev1
           in case analyze_papers (analyze_paper env) top10_papers [] of
                (ev2, Inl e) \<Rightarrow> (pre @ ev2, Inl e)
              | (ev2, Inr analysis_results) \<Rightarrow>
                  (let timestamp = strftime_Ymd_HMS (now_json env);
                       analysis_file = ''data/analysis/analysis_results_'' @ timestamp @ ''.json'';
                       ev3 = pre @ ev2 @
                             [WriteFile analysis_file (Json analysis_results),
                              Print (MsgAnalysisSaved analysis_file),
                              Print MsgHtml,
                              GenerateReport analysis_results]
                   in case generate_report env analysis_results of
                        Inl e \<Rightarrow> (ev3, Inl e)
                      | Inr report_file \<Rightarrow>
                          (let ev4 = ev3 @ [Print (MsgHtmlDone report_file), Print MsgEmail,
                                            SendReport analysis_results]
                           in case send_report env analysis_results of
                                Some e \<Rightarrow> (ev4, Inl e)
                              | None \<Rightarrow> (ev4, Inr analysis_results)))))"

text \<open>The target date of a run, \<^verbatim>\<open>yesterday.strftime('%Y-%m-%d')\<close>: the day of the instant
  one day before the reading of the clock.\<close>

definition date_of :: "datetime \<Rightarrow> date" where
  "date_of t = t div 86400000000"

definition run_target_date :: "env \<Rightarrow> date" where
  "run_target_date env = date_of (now_run env - timedelta_days 1)"

text \<open>\<^verbatim>\<open>run_daily_top10\<close>: the effects of one run. Every exception is caught and printed.\<close>

definition run_daily_top10 :: "env \<Rightarrow> event list" where
  "run_daily_top10 env =
     (let target_date = run_target_date env
      in Print (MsgFetching target_date) #
         (case get_specific_date_papers target_date (client_results env) of
            (ev, Inl e) \<Rightarrow> ev @ [Print (MsgError e)]
          | (ev, Inr ps) \<Rightarrow>
              ev @ Print (MsgTotal (length ps)) #
              (case analyze_and_generate_report env ps target_date of
                 (ev2, Inl e) \<Rightarrow> ev2 @ [Print (MsgError e)]
               | (ev2, Inr analysis_results) \<Rightarrow> ev2)))"

text \<open>The kinds of effect that the reporting steps of a run consist of.\<close>

fun is_json_write :: "event \<Rightarrow> bool" where
  "is_json_write (WriteFile path (Json rs)) = True"
| "is_json_write ev = False"

fun is_report :: "event \<Rightarrow> bool" where
  "is_report (GenerateReport rs) = True"
| "is_report ev = False"

fun is_email :: "event \<Rightarrow> bool" where
  "is_email (SendReport rs) = True"
| "is_email ev = False"

fun is_csv_write :: "event \<Rightarrow> bool" where
  "is_csv_write (WriteFile path (Csv df)) = True"
| "is_csv_write ev = False"

definition reporting :: "event \<Rightarrow> bool" where
  "reporting ev \<longleftrightarrow> is_json_write ev \<or> is_report ev \<or> is_email ev"

text \<open>The invariant of the collecting loop: the extension count is at most 3, the window start
  is the first start moved back by one day for each extension, and every collected paper lies in
  the current window.\<close>

definition window_inv :: "datetime \<Rightarrow> datetime \<Rightarrow> scan_state \<Rightarrow> bool" where
  "window_inv start0 target_end st \<longleftrightarrow>
     error_retries st \<le> 3 \<and>
     target_start st = start0 - timedelta_days (int (error_retries st)) \<and>
     (\<forall>p\<in>set (papers st). target_start st \<le> published p \<and> published p < target_end)"

text \<open>How the window may change from one pass of the loop to the next: not at all, or by one
  extension, made while nothing is collected and fewer than 3 extensions were made.\<close>

definition window_step :: "scan_state \<Rightarrow> scan_state \<Rightarrow> bool" where
  "window_step s s' \<longleftrightarrow>
     (target_start s' = target_start s \<and> error_retries s' = error_retries s) \<or>
     (papers s = [] \<and> error_retries s < 3 \<and> error_retries s' = error_retries s + 1 \<and>
      target_start s' = target_start s - timedelta_days 1 \<and> target_start s' < target_start s)"

section \<open>Sample data\<close>

definition sample_paper :: "string \<Rightarrow> datetime \<Rightarrow> paper" where
  "sample_paper ident t =
     \<lparr>entry_id = ident, title = ''T '' @ ident, authors = [''A'', ''B''],
      categories = [''cs.AI'', ''cs.LG''], summary = ''S'', published = t, updated = t\<rparr>"

definition sample_score :: "paper \<Rightarrow> real" where
  "sample_score p = real_of_int (published p)"

definition sample_analyze :: "row \<Rightarrow> exn + result" where
  "sample_analyze r =
     (if map_of r ''url'' = Some (CStr ''a'') then Inl (Exn ''boom'')
      else Inr [(''summary'', CStr ''ok'')])"

definition sample_env :: "feed \<Rightarrow> env" where
  "sample_env fd =
     \<lparr>client_results = fd, quality_score = sample_score, analyze_paper = sample_analyze,
      generate_report = (\<lambda>rs. Inr ''report.html''), send_report = (\<lambda>rs. None),
      now_run = 1710600000000000, now_csv = 1710600001000000, now_json = 1710632401000000\<rparr>"

definition sample_papers :: "paper list" where
  "sample_papers =
     [sample_paper ''a'' 3, sample_paper ''b'' 1, sample_paper ''c'' 4, sample_paper ''d'' 1,
      sample_paper ''e'' 5, sample_paper ''f'' 9, sample_paper ''g'' 2, sample_paper ''h'' 6,
      sample_paper ''i'' 5, sample_paper ''j'' 3, sample_paper ''k'' 5]"

section \<open>Properties of the collector\<close>

lemmas collect_eval = get_specific_date_papers_def collect_scan_def initial_state_def
  target_end_of_def strptime_def timedelta_days_def loop_body_def sample_paper_def

lemma loop_body_cases:
  "loop_body td te p st = Next st \<and> te \<le> published p
   \<or> loop_body td te p st = Break \<and> published p < te \<and> published p < target_start st
        \<and> \<not> (papers st = [] \<and> error_retries st < 3)
   \<or> loop_body td te p st =
        Next (st\<lparr>error_retries := error_retries st + 1,
                  out := out st @ [Print (MsgNotFound td (error_retries st + 1))],
                  target_start := target_start st - timedelta_days 1\<rparr>)
        \<and> published p < te \<and> published p < target_start st \<and> papers st = [] \<and> error_retries st < 3
   \<or> loop_body td te p st = Next (st\<lparr>papers := papers st @ [p], out := out st @ [Sleep]\<rparr>)
        \<and> published p < te \<and> target_start st \<le> published p"
  by (auto simp: loop_body_def)

lemma loop_body_inv:
  "window_inv s0 te st \<Longrightarrow> loop_body td te p st = Next st' \<Longrightarrow> window_inv s0 te st'"
  using loop_body_cases[of td te p st]
  by (auto simp: window_inv_def timedelta_days_def)

lemma scan_inv:
  "window_inv s0 te st \<Longrightarrow> scan td te fd st = (st', r) \<Longrightarrow> window_inv s0 te st'"
proof (induction fd arbitrary: st)
  case (Yield p rest)
  then show ?case
    by (cases "loop_body td te p st") (auto dest: loop_body_inv)
qed auto

lemma initial_inv: "window_inv (strptime td) te (initial_state td)"
  by (simp add: window_inv_def initial_state_def timedelta_days_def)

lemma scan_raises: "scan td te fd st = (st', Some e) \<Longrightarrow> feed_raises fd e"
proof (induction fd arbitrary: st)
  case (Yield p rest)
  then show ?case
    by (cases "loop_body td te p st") auto
qed auto

lemma scan_last_state: "fst (scan td te fd st) = last (scan_states td te fd st)"
proof (induction fd arbitrary: st)
  case (Yield p rest)
  then show ?case
    by (cases "loop_body td te p st"; cases rest) auto
qed auto

lemma loop_body_step: "loop_body td te p st = Next st' \<Longrightarrow> window_step st st'"
  using loop_body_cases[of td te p st]
  by (auto simp: window_step_def timedelta_days_def)

lemma scan_states_hd: "hd (scan_states td te fd st) = st"
  by (cases fd) auto

lemma scan_states_successively: "successively window_step (scan_states td te fd st)"
proof (induction fd arbitrary: st)
  case (Yield p rest)
  show ?case
  proof (cases "loop_body td te p st")
    case Break
    then show ?thesis by simp
  next
    case (Next st')
    then show ?thesis
      using Yield.IH[of st'] loop_body_step[OF Next]
      by (simp add: successively_Cons scan_states_hd)
  qed
qed auto

lemma scan_states_inv:
  "window_inv s0 te st \<Longrightarrow> s \<in> set (scan_states td te fd st) \<Longrightarrow> window_inv s0 te s"
proof (induction fd arbitrary: st)
  case (Yield p rest)
  then show ?case
    by (cases "loop_body td te p st") (auto dest: loop_body_inv)
qed auto

text \<open>
  C1, as the code has it. \<^verbatim>\<open>get_specific_date_papers\<close> raises exactly when its loop was ended
  by an exception of the feed while \<^verbatim>\<open>papers\<close> was empty, and then the feed is one that raises
  that exception; the number of window extensions made so far plays no part. When the feed
  raises after at least one paper was collected, the list collected so far is returned. When
  the loop ends without an exception, the list is returned, empty or not; in particular a feed
  that never raises never makes the function raise.
\<close>

theorem collect_failure:
  "(snd (get_specific_date_papers target_date fd) = Inl e \<longleftrightarrow>
      snd (collect_scan target_date fd) = Some e \<and> papers (fst (collect_scan target_date fd)) = [])
   \<and> (snd (get_specific_date_papers target_date fd) = Inl e \<longrightarrow> feed_raises fd e)
   \<and> (snd (collect_scan target_date fd) = Some e \<and> papers (fst (collect_scan target_date fd)) \<noteq> [] \<longrightarrow>
        snd (get_specific_date_papers target_date fd) = Inr (papers (fst (collect_scan target_date fd))))
   \<and> (snd (collect_scan target_date fd) = None \<longrightarrow>
        snd (get_specific_date_papers target_date fd) = Inr (papers (fst (collect_scan target_date fd))))
   \<and> snd (get_specific_date_papers target_date (feed_of ps Stop)) \<noteq> Inl e"
proof -
  obtain st r where sc: "collect_scan target_date fd = (st, r)"
    by (cases "collect_scan target_date fd")
  have raises: "r = Some e \<Longrightarrow> feed_raises fd e"
    using sc scan_raises[of target_date "target_end_of target_date" fd "initial_state target_date" st e]
    by (simp add: collect_scan_def)
  have nofail: "\<not> feed_raises (feed_of ps Stop) e"
    by (induction ps) auto
  obtain st2 r2 where sc2: "collect_scan target_date (feed_of ps Stop) = (st2, r2)"
    by (cases "collect_scan target_date (feed_of ps Stop)")
  have "r2 \<noteq> Some e"
    using sc2 nofail
      scan_raises[of target_date "target_end_of target_date" "feed_of ps Stop"
        "initial_state target_date" st2 e]
    by (auto simp: collect_scan_def)
  then have never: "snd (get_specific_date_papers target_date (feed_of ps Stop)) \<noteq> Inl e"
    using sc2 by (auto simp: get_specific_date_papers_def split: option.splits if_splits)
  show ?thesis
    using sc raises never
    by (auto simp: get_specific_date_papers_def split: option.splits if_splits)
qed

theorem collect_failure_witness:
  "snd (get_specific_date_papers 19797 (Fail (Exn ''timeout''))) = Inl (Exn ''timeout'')
   \<and> feed_raises (Fail (Exn ''timeout'')) (Exn ''timeout'')
   \<and> snd (get_specific_date_papers 19797
        (Yield (sample_paper ''a'' 1710500000000000) (Fail (Exn ''timeout''))))
      = Inr [sample_paper ''a'' 1710500000000000]
   \<and> snd (get_specific_date_papers 19797 Stop) = Inr []"
  using collect_failure[of 19797 "Fail (Exn ''timeout'')" "Exn ''timeout''" "[]"]
    collect_failure[of 19797 "Yield (sample_paper ''a'' 1710500000000000) (Fail (Exn ''timeout''))"
       "Exn ''timeout''" "[]"]
    collect_failure[of 19797 Stop "Exn ''timeout''" "[]"]
  by (simp add: collect_eval)

text \<open>
  C1, as the specification words it, asks for the retry budget to be exhausted when the
  collector fails. A feed that raises at once makes the collector fail with no extension made.
\<close>

theorem collect_fails_before_budget_counterexample:
  "snd (get_specific_date_papers 19797 (Fail (Exn ''timeout''))) = Inl (Exn ''timeout'')
   \<and> error_retries (fst (collect_scan 19797 (Fail (Exn ''timeout'')))) < 3"
  by (simp add: collect_eval)

text \<open>
  C2. Every paper in the list that \<^verbatim>\<open>get_specific_date_papers\<close> returns was published in
  the half-open interval from the final window start to the window end. The end is the target
  date plus one day; the final start is the start of the target date moved back by one day for
  each of the extensions made, and there are at most 3 of them.
\<close>

theorem collect_window:
  assumes "snd (get_specific_date_papers target_date fd) = Inr ps"
  shows "(\<forall>p\<in>set ps. target_start (fst (collect_scan target_date fd)) \<le> published p
                      \<and> published p < strptime target_date + timedelta_days 1)
       \<and> target_start (fst (collect_scan target_date fd)) =
           strptime target_date - timedelta_days (int (error_retries (fst (collect_scan target_date fd))))
       \<and> error_retries (fst (collect_scan target_date fd)) \<le> 3"
proof -
  obtain st r where sc: "collect_scan target_date fd = (st, r)"
    by (cases "collect_scan target_date fd")
  have inv: "window_inv (strptime target_date) (target_end_of target_date) st"
    using sc scan_inv[OF initial_inv] by (simp add: collect_scan_def)
  have "ps = papers st"
    using assms sc by (auto simp: get_specific_date_papers_def split: option.splits if_splits)
  then show ?thesis
    using inv sc by (auto simp: window_inv_def target_end_of_def)
qed

theorem collect_window_witness:
  "snd (get_specific_date_papers 19797
      (feed_of [sample_paper ''new'' 1710600000000000, sample_paper ''old'' 1710400000000000,
                sample_paper ''b'' 1710410000000000, sample_paper ''c'' 1710300000000000] Stop))
     = Inr [sample_paper ''b'' 1710410000000000]
   \<and> (1710374400000000 \<le> published (sample_paper ''b'' 1710410000000000)
      \<and> published (sample_paper ''b'' 1710410000000000) < 1710547200000000)"
  using collect_window[of 19797
      "feed_of [sample_paper ''new'' 1710600000000000, sample_paper ''old'' 1710400000000000,
                sample_paper ''b'' 1710410000000000, sample_paper ''c'' 1710300000000000] Stop"
      "[sample_paper ''b'' 1710410000000000]"]
  by (simp add: collect_eval)

text \<open>
  C3. In one call of \<^verbatim>\<open>get_specific_date_papers\<close>, from each pass of the loop to the next the
  window start either stays where it is or moves back by exactly one day, the latter only while
  no paper is collected and fewer than 3 extensions were made; in every state of the call the
  extension count is at most 3, and the window start is the first start moved back by that
  many days, so never later than the first start. The states run from the initial one to the
  one in which the loop is left.
\<close>

theorem window_extensions:
  "successively window_step
     (scan_states target_date (target_end_of target_date) fd (initial_state target_date))
   \<and> (\<forall>s\<in>set (scan_states target_date (target_end_of target_date) fd (initial_state target_date)).
        error_retries s \<le> 3 \<and>
        target_start s = strptime target_date - timedelta_days (int (error_retries s)) \<and>
        target_start s \<le> strptime target_date)
   \<and> hd (scan_states target_date (target_end_of target_date) fd (initial_state target_date))
       = initial_state target_date
   \<and> last (scan_states target_date (target_end_of target_date) fd (initial_state target_date))
       = fst (collect_scan target_date fd)"
proof -
  have "\<forall>s\<in>set (scan_states target_date (target_end_of target_date) fd (initial_state target_date)).
          window_inv (strptime target_date) (target_end_of target_date) s"
    using scan_states_inv[OF initial_inv] by blast
  then show ?thesis
    using scan_states_successively scan_states_hd scan_last_state
    by (auto simp: window_inv_def collect_scan_def timedelta_days_def)
qed

theorem window_extensions_witness:
  "map error_retries
     (scan_states 19797 (target_end_of 19797)
        (feed_of [sample_paper ''o1'' 1710400000000000, sample_paper ''o2'' 1710300000000000,
                  sample_paper ''o3'' 1710200000000000, sample_paper ''o4'' 1710100000000000,
                  sample_paper ''o5'' 1710000000000000] Stop)
        (initial_state 19797)) = [0, 1, 2, 3]
   \<and> successively window_step
     (scan_states 19797 (target_end_of 19797)
        (feed_of [sample_paper ''o1'' 1710400000000000, sample_paper ''o2'' 1710300000000000,
                  sample_paper ''o3'' 1710200000000000, sample_paper ''o4'' 1710100000000000,
                  sample_paper ''o5'' 1710000000000000] Stop)
        (initial_state 19797))
   \<and> target_start (fst (collect_scan 19797
        (feed_of [sample_paper ''o1'' 1710400000000000, sample_paper ''o2'' 1710300000000000,
                  sample_paper ''o3'' 1710200000000000, sample_paper ''o4'' 1710100000000000,
                  sample_paper ''o5'' 1710000000000000] Stop))) = 1710201600000000"
  using window_extensions[of 19797
        "feed_of [sample_paper ''o1'' 1710400000000000, sample_paper ''o2'' 1710300000000000,
                  sample_paper ''o3'' 1710200000000000, sample_paper ''o4'' 1710100000000000,
                  sample_paper ''o5'' 1710000000000000] Stop"]
  by (simp add: collect_eval)

text \<open>
  C9. A record that triggers a window extension (published before the current window start,
  while no paper is collected and fewer than 3 extensions were made) is itself skipped: the
  scan goes on with the rest of the feed in the extended state, with nothing collected. So
  when the record lies inside the extended window, it is in the final window of the scan that
  ends after it, and yet not in the result.
\<close>

theorem extension_skips_record:
  assumes "papers st = []" and "error_retries st < 3"
      and "published p < target_start st" and "published p < target_end"
  shows "scan target_date target_end (Yield p rest) st =
           scan target_date target_end rest
             (st\<lparr>error_retries := error_retries st + 1,
                 out := out st @ [Print (MsgNotFound target_date (error_retries st + 1))],
                 target_start := target_start st - timedelta_days 1\<rparr>)
       \<and> (target_start st - timedelta_days 1 \<le> published p \<longrightarrow>
            p \<notin> set (papers (fst (scan target_date target_end (Yield p Stop) st)))
            \<and> target_start (fst (scan target_date target_end (Yield p Stop) st)) \<le> published p)"
  using assms by (simp add: loop_body_def)

theorem extension_skips_record_witness:
  "snd (get_specific_date_papers 19797 (Yield (sample_paper ''old'' 1710400000000000) Stop)) = Inr []
   \<and> target_start (fst (collect_scan 19797 (Yield (sample_paper ''old'' 1710400000000000) Stop)))
       \<le> published (sample_paper ''old'' 1710400000000000)
   \<and> published (sample_paper ''old'' 1710400000000000) < target_end_of 19797"
  using extension_skips_record[of "initial_state 19797" "sample_paper ''old'' 1710400000000000"
      "target_end_of 19797" 19797 Stop]
  by (simp add: collect_eval)

section \<open>Properties of the ranking\<close>



lemma set_insort_reverse: "set (insort_reverse key x ys) = insert x (set ys)"
  by (induction ys) auto

lemma length_insort_reverse: "length (insort_reverse key x ys) = Suc (length ys)"
  by (induction ys) auto

lemma sorted_insort_reverse:
  "sorted_wrt (\<lambda>a b. key b \<le> key a) ys \<Longrightarrow> sorted_wrt (\<lambda>a b. key b \<le> key a) (insort_reverse key x ys)"
  by (induction ys) (auto simp: set_insort_reverse)

lemma filter_insort_reverse:
  "filter (\<lambda>y. key y = c) (insort_reverse key x ys) =
     (if key x = c then x # filter (\<lambda>y. key y = c) ys else filter (\<lambda>y. key y = c) ys)"
  by (induction ys) auto

lemma length_sort_reverse: "length (sort_reverse key xs) = length xs"
  by (induction xs) (auto simp: sort_reverse_def length_insort_reverse)

lemma set_sort_reverse: "set (sort_reverse key xs) = set xs"
  by (induction xs) (auto simp: sort_reverse_def set_insort_reverse)

lemma sorted_sort_reverse: "sorted_wrt (\<lambda>a b. key b \<le> key a) (sort_reverse key xs)"
  by (induction xs) (auto simp: sort_reverse_def sorted_insort_reverse)

lemma filter_sort_reverse:
  "filter (\<lambda>y. key y = c) (sort_reverse key xs) = filter (\<lambda>y. key y = c) xs"
  by (induction xs) (auto simp: sort_reverse_def filter_insort_reverse)

lemma paper_scores_map: "paper_scores analyzer ps = map (score_row analyzer) ps"
  by (induction ps) auto

lemma score_key_score_row: "score_key (score_row analyzer p) = analyzer p"
  by (simp add: score_key_def score_row_def)

lemma score_key_update_rank: "score_key (AList.update ''rank'' v r) = score_key r"
  by (simp add: score_key_def update_conv')

lemma length_assign_ranks: "length (assign_ranks i rs) = length rs"
  by (induction rs arbitrary: i) auto

lemma map_score_assign_ranks: "map score_key (assign_ranks i rs) = map score_key rs"
  by (induction rs arbitrary: i) (auto simp: score_key_update_rank)

lemma map_rank_assign_ranks:
  "map (\<lambda>r. map_of r ''rank'') (assign_ranks i rs) = map (\<lambda>j. Some (CInt j)) [i..i + int (length rs) - 1]"
proof (induction rs arbitrary: i)
  case Nil
  then show ?case by simp
next
  case (Cons r rs)
  have "[i..i + int (length (r # rs)) - 1] = i # [i + 1..(i + 1) + int (length rs) - 1]"
    by (simp add: upto_rec1)
  then show ?case
    using Cons.IH[of "i + 1"] by (simp add: update_conv')
qed

lemma snd_save_top10:
  "snd (save_top10 ps analyzer target_date now) =
     assign_ranks 1 (take 10 (sort_reverse score_key (paper_scores analyzer ps)))"
  by (simp add: save_top10_def Let_def)

text \<open>
  C4. For every list of papers and every scorer, the list that \<^verbatim>\<open>save_top10\<close> returns has
  \<open>min 10 (length ps)\<close> entries, so at most 10; its scores never increase from one entry to
  a later one; its \<^verbatim>\<open>rank\<close> fields are 1, 2, ... up to that length, in order; and for no
  paper it is the empty list. The function has no failing branch.
\<close>

theorem rank_top10:
  "length (snd (save_top10 ps analyzer target_date now)) = min 10 (length ps)
   \<and> length (snd (save_top10 ps analyzer target_date now)) \<le> 10
   \<and> sorted_wrt (\<lambda>a b. score_key a \<ge> score_key b) (snd (save_top10 ps analyzer target_date now))
   \<and> (\<forall>i j. i < j \<and> j < length (snd (save_top10 ps analyzer target_date now)) \<longrightarrow>
        score_key (snd (save_top10 ps analyzer target_date now) ! i)
          \<ge> score_key (snd (save_top10 ps analyzer target_date now) ! j))
   \<and> map (\<lambda>r. map_of r ''rank'') (snd (save_top10 ps analyzer target_date now))
       = map (\<lambda>j. Some (CInt j)) [1..int (min 10 (length ps))]
   \<and> snd (save_top10 [] analyzer target_date now) = []"
proof -
  let ?sorted = "sort_reverse score_key (paper_scores analyzer ps)"
  let ?top = "snd (save_top10 ps analyzer target_date now)"
  have top: "?top = assign_ranks 1 (take 10 ?sorted)"
    by (rule snd_save_top10)
  have len: "length ?top = min 10 (length ps)"
    by (simp add: top length_assign_ranks length_sort_reverse paper_scores_map min.commute)
  have "sorted_wrt (\<lambda>a b. score_key b \<le> score_key a) (take 10 ?sorted)"
    using sorted_sort_reverse[of score_key "paper_scores analyzer ps"]
    by (rule sorted_wrt_take)
  then have "sorted_wrt (\<ge>) (map score_key (take 10 ?sorted))"
    by (simp add: sorted_wrt_map)
  then have "sorted_wrt (\<ge>) (map score_key ?top)"
    by (simp add: top map_score_assign_ranks)
  then have srt: "sorted_wrt (\<lambda>a b. score_key a \<ge> score_key b) ?top"
    by (simp add: sorted_wrt_map)
  have nth: "\<forall>i j. i < j \<and> j < length ?top \<longrightarrow> score_key (?top ! i) \<ge> score_key (?top ! j)"
    using srt by (auto simp: sorted_wrt_iff_nth_less)
  have rk: "map (\<lambda>r. map_of r ''rank'') ?top = map (\<lambda>j. Some (CInt j)) [1..int (min 10 (length ps))]"
    using map_rank_assign_ranks[of 1 "take 10 ?sorted"]
    by (simp add: top length_sort_reverse paper_scores_map min.commute)
  have emp: "snd (save_top10 [] analyzer target_date now) = []"
    by (simp add: snd_save_top10 sort_reverse_def)
  show ?thesis
    using len srt nth rk emp by simp
qed

text \<open>Eleven papers with the scores 3, 1, 4, 1, 5, 9, 2, 6, 5, 3, 5: ten are kept.\<close>

theorem rank_top10_witness:
  "length (snd (save_top10 sample_papers sample_score 19797 1710600001000000)) = 10
   \<and> map score_key (snd (save_top10 sample_papers sample_score 19797 1710600001000000))
     = [9, 6, 5, 5, 5, 4, 3, 3, 2, 1]
   \<and> sorted_wrt (\<lambda>a b. score_key a \<ge> score_key b)
       (snd (save_top10 sample_papers sample_score 19797 1710600001000000))
   \<and> map (\<lambda>r. map_of r ''rank'') (snd (save_top10 sample_papers sample_score 19797 1710600001000000))
     = [Some (CInt 1), Some (CInt 2), Some (CInt 3), Some (CInt 4), Some (CInt 5),
        Some (CInt 6), Some (CInt 7), Some (CInt 8), Some (CInt 9), Some (CInt 10)]"
proof -
  have len: "length sample_papers = 11"
    by (simp add: sample_papers_def)
  have scores: "map score_key (snd (save_top10 sample_papers sample_score 19797 1710600001000000))
     = [9, 6, 5, 5, 5, 4, 3, 3, 2, 1]"
    by code_simp
  have ranks: "map (\<lambda>j. Some (CInt j)) [1..10]
     = [Some (CInt 1), Some (CInt 2), Some (CInt 3), Some (CInt 4), Some (CInt 5),
        Some (CInt 6), Some (CInt 7), Some (CInt 8), Some (CInt 9), Some (CInt 10)]"
    by code_simp
  show ?thesis
    using rank_top10[of sample_papers sample_score 19797 1710600001000000] len scores ranks
    by simp
qed

lemma score_row_reset_rank:
  "AList.update ''rank'' (CInt 0) (AList.update ''rank'' v (score_row analyzer p)) = score_row analyzer p"
  by (simp add: score_row_def)

lemma score_row_rank0:
  "AList.update ''rank'' (CInt 0) (score_row analyzer p) = score_row analyzer p"
  by (simp add: score_row_def)

lemma reset_assign_ranks:
  "\<forall>r\<in>set rs. \<exists>p. r = score_row analyzer p \<Longrightarrow>
     map (AList.update ''rank'' (CInt 0)) (assign_ranks i rs) = rs"
  by (induction rs arbitrary: i) (auto simp: score_row_reset_rank score_row_rank0)

lemma sorted_rows_from_papers:
  "r \<in> set (take n (sort_reverse score_key (paper_scores analyzer ps))) \<Longrightarrow>
     \<exists>p\<in>set ps. r = score_row analyzer p"
  using set_take_subset[of n "sort_reverse score_key (paper_scores analyzer ps)"]
  by (auto simp: set_sort_reverse paper_scores_map)

lemma filter_score_rows:
  "filter (\<lambda>r. score_key r = s) (paper_scores analyzer ps) =
     map (score_row analyzer) (filter (\<lambda>p. analyzer p = s) ps)"
  by (induction ps) (auto simp: score_key_score_row)

text \<open>
  C5. The sort keeps, for every score \<open>s\<close>, the papers with that score in the order of the
  input list: the entries of the sorted list with score \<open>s\<close> are the dictionaries of the
  input papers with score \<open>s\<close>, in input order. The list returned by \<^verbatim>\<open>save_top10\<close> is, up
  to the \<^verbatim>\<open>rank\<close> fields it sets, the first 10 entries of the sorted list, so its entries
  with score \<open>s\<close> are the first ones of those papers, still in input order.
\<close>

theorem rank_stable:
  "filter (\<lambda>r. score_key r = s) (sort_reverse score_key (paper_scores analyzer ps))
     = map (score_row analyzer) (filter (\<lambda>p. analyzer p = s) ps)
   \<and> map (AList.update ''rank'' (CInt 0)) (snd (save_top10 ps analyzer target_date now))
     = take 10 (sort_reverse score_key (paper_scores analyzer ps))
   \<and> prefix (filter (\<lambda>r. score_key r = s)
               (map (AList.update ''rank'' (CInt 0)) (snd (save_top10 ps analyzer target_date now))))
            (map (score_row analyzer) (filter (\<lambda>p. analyzer p = s) ps))"
proof -
  let ?sorted = "sort_reverse score_key (paper_scores analyzer ps)"
  have stable: "filter (\<lambda>r. score_key r = s) ?sorted
                  = map (score_row analyzer) (filter (\<lambda>p. analyzer p = s) ps)"
    by (simp add: filter_sort_reverse filter_score_rows)
  have "\<forall>r\<in>set (take 10 ?sorted). \<exists>p. r = score_row analyzer p"
    using sorted_rows_from_papers by blast
  then have reset: "map (AList.update ''rank'' (CInt 0)) (snd (save_top10 ps analyzer target_date now))
                      = take 10 ?sorted"
    by (simp add: snd_save_top10 reset_assign_ranks)
  have "prefix (filter (\<lambda>r. score_key r = s) (take 10 ?sorted)) (filter (\<lambda>r. score_key r = s) ?sorted)"
    by (rule filter_mono_prefix) (rule take_is_prefix)
  then show ?thesis
    using stable reset by simp
qed

text \<open>In the sample the papers e, i and k share the score 5 and come out in that order.\<close>

theorem rank_stable_witness:
  "filter (\<lambda>r. score_key r = 5)
     (map (AList.update ''rank'' (CInt 0))
        (snd (save_top10 sample_papers sample_score 19797 1710600001000000)))
     = map (score_row sample_score) [sample_paper ''e'' 5, sample_paper ''i'' 5, sample_paper ''k'' 5]"
proof -
  let ?out = "filter (\<lambda>r. score_key r = 5)
     (map (AList.update ''rank'' (CInt 0))
        (snd (save_top10 sample_papers sample_score 19797 1710600001000000)))"
  let ?inp = "map (score_row sample_score)
                [sample_paper ''e'' 5, sample_paper ''i'' 5, sample_paper ''k'' 5]"
  have inp: "filter (\<lambda>p. sample_score p = 5) sample_papers
               = [sample_paper ''e'' 5, sample_paper ''i'' 5, sample_paper ''k'' 5]"
    by (simp add: sample_papers_def sample_score_def sample_paper_def)
  have len: "length ?out = 3"
    by code_simp
  have "prefix ?out (map (score_row sample_score) (filter (\<lambda>p. sample_score p = 5) sample_papers))"
    using rank_stable[where s = 5 and analyzer = sample_score and ps = sample_papers
        and target_date = 19797 and now = 1710600001000000]
    by blast
  then have "prefix ?out ?inp"
    by (simp only: inp)
  then obtain zs where zs: "?inp = ?out @ zs"
    unfolding prefix_def by blast
  have "length ?inp = length ?out + length zs"
    by (subst zs) (rule length_append)
  then have "zs = []"
    unfolding len by simp
  then show ?thesis
    using zs by (simp only: append_Nil2)
qed

lemma paper_scores_cong:
  "\<forall>p\<in>set ps. analyzer1 p = analyzer2 p \<Longrightarrow> paper_scores analyzer1 ps = paper_scores analyzer2 ps"
  by (induction ps) (auto simp: score_row_def)

text \<open>
  C8. The list that \<^verbatim>\<open>save_top10\<close> returns is a function of the papers and of the scores
  that the scorer gives them, and of nothing else: two calls on the same list, with scorers
  that give each paper of the list the same score (in particular with the same scorer), return
  the same list, element for element, whatever the target date and the clock of each call.
\<close>

theorem rank_deterministic:
  assumes "\<forall>p\<in>set ps. analyzer1 p = analyzer2 p"
  shows "snd (save_top10 ps analyzer1 target_date1 now1) = snd (save_top10 ps analyzer2 target_date2 now2)
       \<and> snd (save_top10 ps analyzer1 target_date1 now1) = snd (save_top10 ps analyzer1 target_date2 now2)"
  using paper_scores_cong[OF assms] by (simp add: snd_save_top10)

text \<open>Two calls on the sample, for different target dates and at different times.\<close>

theorem rank_deterministic_witness:
  "snd (save_top10 sample_papers sample_score 19797 1710600001000000)
     = snd (save_top10 sample_papers sample_score 19798 1710686401000000)"
proof -
  have "\<forall>p\<in>set sample_papers. sample_score p = sample_score p"
    by simp
  then show ?thesis
    using rank_deterministic[of sample_papers sample_score sample_score 19797 1710600001000000
        19798 1710686401000000]
    by blast
qed

lemma add_keys_same: "add_keys ks ks = ks"
  by (simp add: add_keys_def)

lemma foldl_add_keys_same: "\<forall>r\<in>set rs. map fst r = ks \<Longrightarrow> foldl add_keys ks (map (map fst) rs) = ks"
  by (induction rs) (auto simp: add_keys_same)

lemma DataFrame_columns:
  assumes "rs \<noteq> []" and "\<forall>r\<in>set rs. map fst r = ks"
  shows "columns (DataFrame rs) = ks"
proof -
  obtain r rest where rs: "rs = r # rest"
    using assms(1) by (cases rs) auto
  have "add_keys [] (map fst r) = ks"
    using assms(2) rs by (simp add: add_keys_def)
  then show ?thesis
    using assms(2) rs by (simp add: DataFrame_def foldl_add_keys_same)
qed

lemma keys_ranked_row: "map fst (AList.update ''rank'' v (score_row analyzer p)) = csv_columns"
  by (simp add: score_row_def csv_columns_def)

lemma assign_ranks_rows:
  "r \<in> set (assign_ranks i rs) \<Longrightarrow> \<exists>r0\<in>set rs. \<exists>j. r = AList.update ''rank'' (CInt j) r0"
  by (induction rs arbitrary: i) auto

lemma top10_rows:
  assumes "r \<in> set (snd (save_top10 ps analyzer target_date now))"
  shows "\<exists>p\<in>set ps. \<exists>j. r = AList.update ''rank'' (CInt j) (score_row analyzer p)"
proof -
  obtain r0 j where r0: "r0 \<in> set (take 10 (sort_reverse score_key (paper_scores analyzer ps)))"
      and r: "r = AList.update ''rank'' (CInt j) r0"
    using assms assign_ranks_rows unfolding snd_save_top10 by blast
  then show ?thesis
    using sorted_rows_from_papers[OF r0] by blast
qed

lemma cells_ranked_row:
  "map (map_of (AList.update ''rank'' (CInt j) (score_row analyzer p))) csv_columns =
     [Some (CInt j), Some (CStr (replace_nl (title p))), Some (CStr (entry_id p)),
      Some (CNum (analyzer p)), Some (CInt (int (length (authors p)))),
      Some (CStr (join '', '' (categories p))), Some (CStr (strftime_Y_m_d (published p))),
      Some (CStr (strftime_Y_m_d (updated p))), Some (CStr (replace_nl (summary p)))]"
  by (simp add: score_row_def csv_columns_def)

lemma strftime_Y_m_d_shape:
  "length (strftime_Y_m_d t) = 10 \<and> strftime_Y_m_d t ! 4 = CHR ''-'' \<and> strftime_Y_m_d t ! 7 = CHR ''-''"
  by (simp add: strftime_Y_m_d_def pad4_def pad2_def split: prod.splits)

lemma csv_events:
  "filter is_csv_write (fst (save_top10 ps analyzer target_date now)) =
     [WriteFile (''data/daily_top10/top10_'' @ strftime_Ymd now @ ''.csv'')
        (Csv (DataFrame (snd (save_top10 ps analyzer target_date now))))]"
  by (simp add: save_top10_def Let_def filter_map comp_def)

lemma top10_nonempty: "ps \<noteq> [] \<Longrightarrow> snd (save_top10 ps analyzer target_date now) \<noteq> []"
proof -
  assume "ps \<noteq> []"
  then have "length (snd (save_top10 ps analyzer target_date now)) > 0"
    by (simp add: snd_save_top10 length_assign_ranks length_sort_reverse paper_scores_map)
  then show ?thesis by auto
qed

text \<open>
  C6, as the code has it. \<^verbatim>\<open>save_top10\<close> writes exactly one CSV file; its path is made
  from the reading of the UTC clock at the time of writing and does not depend on the target
  date. When at least one paper was given, the columns of the frame written are, in order,
  \<^verbatim>\<open>rank\<close>, \<^verbatim>\<open>title\<close>, \<^verbatim>\<open>url\<close>, \<^verbatim>\<open>score\<close>, \<^verbatim>\<open>authors\<close>, \<^verbatim>\<open>categories\<close>, \<^verbatim>\<open>published\<close>,
  \<^verbatim>\<open>updated\<close>, \<^verbatim>\<open>abstract\<close>, and each of its rows holds, for one of the papers, the rank, the
  title, the entry id, the score, the number of authors, the categories joined by a comma and a
  space, the two dates in the form YYYY-MM-DD, and the summary.
\<close>

theorem csv_artifact:
  "filter is_csv_write (fst (save_top10 ps analyzer target_date now)) =
     [WriteFile (''data/daily_top10/top10_'' @ strftime_Ymd now @ ''.csv'')
        (Csv (DataFrame (snd (save_top10 ps analyzer target_date now))))]
   \<and> (ps \<noteq> [] \<longrightarrow> columns (DataFrame (snd (save_top10 ps analyzer target_date now))) = csv_columns)
   \<and> (ps \<noteq> [] \<longrightarrow>
        cells (DataFrame (snd (save_top10 ps analyzer target_date now)))
          = map (\<lambda>r. map (map_of r) csv_columns) (snd (save_top10 ps analyzer target_date now)))
   \<and> (\<forall>r\<in>set (snd (save_top10 ps analyzer target_date now)). \<exists>p\<in>set ps. \<exists>j.
        map (map_of r) csv_columns =
          [Some (CInt j), Some (CStr (replace_nl (title p))), Some (CStr (entry_id p)),
           Some (CNum (analyzer p)), Some (CInt (int (length (authors p)))),
           Some (CStr (join '', '' (categories p))), Some (CStr (strftime_Y_m_d (published p))),
           Some (CStr (strftime_Y_m_d (updated p))), Some (CStr (replace_nl (summary p)))]
        \<and> length (strftime_Y_m_d (published p)) = 10
        \<and> strftime_Y_m_d (published p) ! 4 = CHR ''-'' \<and> strftime_Y_m_d (published p) ! 7 = CHR ''-'')"
proof -
  let ?top = "snd (save_top10 ps analyzer target_date now)"
  have keys: "\<forall>r\<in>set ?top. map fst r = csv_columns"
    using top10_rows keys_ranked_row by metis
  have cols: "ps \<noteq> [] \<Longrightarrow> columns (DataFrame ?top) = csv_columns"
    using DataFrame_columns[OF top10_nonempty keys] by simp
  have cls: "ps \<noteq> [] \<Longrightarrow> cells (DataFrame ?top) = map (\<lambda>r. map (map_of r) csv_columns) ?top"
  proof -
    assume ne: "ps \<noteq> []"
    have "cells (DataFrame ?top) = map (\<lambda>r. map (map_of r) (columns (DataFrame ?top))) ?top"
      by (simp add: DataFrame_def Let_def)
    then show ?thesis using cols[OF ne] by simp
  qed
  have rows: "\<forall>r\<in>set ?top. \<exists>p\<in>set ps. \<exists>j.
        map (map_of r) csv_columns =
          [Some (CInt j), Some (CStr (replace_nl (title p))), Some (CStr (entry_id p)),
           Some (CNum (analyzer p)), Some (CInt (int (length (authors p)))),
           Some (CStr (join '', '' (categories p))), Some (CStr (strftime_Y_m_d (published p))),
           Some (CStr (strftime_Y_m_d (updated p))), Some (CStr (replace_nl (summary p)))]
        \<and> length (strftime_Y_m_d (published p)) = 10
        \<and> strftime_Y_m_d (published p) ! 4 = CHR ''-'' \<and> strftime_Y_m_d (published p) ! 7 = CHR ''-''"
  proof
    fix r assume "r \<in> set ?top"
    then obtain p j where p: "p \<in> set ps" and r: "r = AList.update ''rank'' (CInt j) (score_row analyzer p)"
      using top10_rows by blast
    show "\<exists>p\<in>set ps. \<exists>j.
        map (map_of r) csv_columns =
          [Some (CInt j), Some (CStr (replace_nl (title p))), Some (CStr (entry_id p)),
           Some (CNum (analyzer p)), Some (CInt (int (length (authors p)))),
           Some (CStr (join '', '' (categories p))), Some (CStr (strftime_Y_m_d (published p))),
           Some (CStr (strftime_Y_m_d (updated p))), Some (CStr (replace_nl (summary p)))]
        \<and> length (strftime_Y_m_d (published p)) = 10
        \<and> strftime_Y_m_d (published p) ! 4 = CHR ''-'' \<and> strftime_Y_m_d (published p) ! 7 = CHR ''-''"
      unfolding r using p
      by (intro bexI[of _ p] exI[of _ j]) (simp_all add: cells_ranked_row strftime_Y_m_d_shape)
  qed
  show ?thesis
    using csv_events cols cls rows by blast
qed

text \<open>A run on 2024-03-16 for the target date 2024-03-15 (day 19797) writes
  \<^verbatim>\<open>top10_20240316.csv\<close>.\<close>

theorem csv_artifact_witness:
  "filter is_csv_write
     (fst (save_top10 [sample_paper ''a'' 1710500000000000, sample_paper ''b'' 1710510000000000]
             sample_score 19797 1710600001000000))
   = [WriteFile ''data/daily_top10/top10_20240316.csv''
        (Csv \<lparr>columns = [''rank'', ''title'', ''url'', ''score'', ''authors'', ''categories'',
                          ''published'', ''updated'', ''abstract''],
              cells = [[Some (CInt 1), Some (CStr ''T b''), Some (CStr ''b''),
                        Some (CNum 1710510000000000), Some (CInt 2), Some (CStr ''cs.AI, cs.LG''),
                        Some (CStr ''2024-03-15''), Some (CStr ''2024-03-15''), Some (CStr ''S'')],
                       [Some (CInt 2), Some (CStr ''T a''), Some (CStr ''a''),
                        Some (CNum 1710500000000000), Some (CInt 2), Some (CStr ''cs.AI, cs.LG''),
                        Some (CStr ''2024-03-15''), Some (CStr ''2024-03-15''), Some (CStr ''S'')]]\<rparr>)]"
proof -
  let ?ps = "[sample_paper ''a'' 1710500000000000, sample_paper ''b'' 1710510000000000]"
  have path: "''data/daily_top10/top10_'' @ strftime_Ymd 1710600001000000 @ ''.csv''
                = ''data/daily_top10/top10_20240316.csv''"
    by code_simp
  have top: "map (\<lambda>r. map (map_of r) csv_columns) (snd (save_top10 ?ps sample_score 19797 1710600001000000))
     = [[Some (CInt 1), Some (CStr ''T b''), Some (CStr ''b''),
                        Some (CNum 1710510000000000), Some (CInt 2), Some (CStr ''cs.AI, cs.LG''),
                        Some (CStr ''2024-03-15''), Some (CStr ''2024-03-15''), Some (CStr ''S'')],
                       [Some (CInt 2), Some (CStr ''T a''), Some (CStr ''a''),
                        Some (CNum 1710500000000000), Some (CInt 2), Some (CStr ''cs.AI, cs.LG''),
                        Some (CStr ''2024-03-15''), Some (CStr ''2024-03-15''), Some (CStr ''S'')]]"
    by code_simp
  have ne: "?ps \<noteq> []" by simp
  have df: "DataFrame (snd (save_top10 ?ps sample_score 19797 1710600001000000))
      = \<lparr>columns = csv_columns,
         cells = map (\<lambda>r. map (map_of r) csv_columns) (snd (save_top10 ?ps sample_score 19797 1710600001000000))\<rparr>"
    using csv_artifact[of ?ps sample_score 19797 1710600001000000] ne by simp
  show ?thesis
    using csv_artifact[of ?ps sample_score 19797 1710600001000000] df path top
    by (simp add: csv_columns_def)
qed

text \<open>
  C6, as the specification words it, gives the file the nine columns in every run. With no
  paper, \<^verbatim>\<open>pd.DataFrame([])\<close> has no column, and that frame is what is written.
\<close>

theorem csv_no_columns_counterexample:
  "filter is_csv_write (fst (save_top10 [] sample_score 19797 1710600001000000))
     = [WriteFile ''data/daily_top10/top10_20240316.csv'' (Csv \<lparr>columns = [], cells = []\<rparr>)]
   \<and> columns (DataFrame (snd (save_top10 [] sample_score 19797 1710600001000000))) \<noteq> csv_columns"
  by code_simp

section \<open>Properties of a run\<close>



lemma loop_body_quiet:
  "\<forall>ev\<in>set (out st). \<not> reporting ev \<Longrightarrow> loop_body td te p st = Next st' \<Longrightarrow>
     \<forall>ev\<in>set (out st'). \<not> reporting ev"
  using loop_body_cases[of td te p st] by (auto simp: reporting_def)

lemma scan_quiet:
  "\<forall>ev\<in>set (out st). \<not> reporting ev \<Longrightarrow> scan td te fd st = (st', r) \<Longrightarrow>
     \<forall>ev\<in>set (out st'). \<not> reporting ev"
proof (induction fd arbitrary: st)
  case (Yield p rest)
  show ?case
  proof (cases "loop_body td te p st")
    case Break
    then show ?thesis using Yield.prems by auto
  next
    case (Next st1)
    then show ?thesis
      using Yield.IH[of st1] Yield.prems loop_body_quiet[OF Yield.prems(1) Next] by simp
  qed
qed auto

lemma collect_quiet: "ev \<in> set (fst (get_specific_date_papers td fd)) \<Longrightarrow> \<not> reporting ev"
proof -
  assume a: "ev \<in> set (fst (get_specific_date_papers td fd))"
  obtain st r where sc: "collect_scan td fd = (st, r)"
    by (cases "collect_scan td fd")
  have "\<forall>ev\<in>set (out st). \<not> reporting ev"
    using sc scan_quiet[of "initial_state td" td "target_end_of td" fd st r]
    by (simp add: collect_scan_def initial_state_def)
  then show ?thesis
    using a sc by (auto simp: get_specific_date_papers_def reporting_def split: option.splits)
qed

lemma save_top10_quiet: "ev \<in> set (fst (save_top10 ps analyzer td now)) \<Longrightarrow> \<not> reporting ev"
  by (auto simp: save_top10_def Let_def reporting_def)

lemma analyze_papers_events:
  "analyze_papers analyze rs acc = (evs, r) \<Longrightarrow> ev \<in> set evs \<Longrightarrow> \<not> reporting ev"
proof (induction rs arbitrary: acc evs r)
  case Nil
  then show ?case by simp
next
  case (Cons p rs)
  then show ?case
    by (fastforce simp: reporting_def split: sum.splits prod.splits)
qed

lemma analyze_papers_quiet:
  "ev \<in> set (fst (analyze_papers analyze rs acc)) \<Longrightarrow> \<not> reporting ev"
  using analyze_papers_events[of analyze rs acc "fst (analyze_papers analyze rs acc)"
      "snd (analyze_papers analyze rs acc)" ev]
  by simp

lemma top10_getitem:
  assumes "r \<in> set (snd (save_top10 ps analyzer td now))"
  shows "(\<exists>t. getitem r ''title'' = Inr t) \<and> (\<exists>v. getitem r ''published'' = Inr v)
       \<and> (\<exists>u. getitem r ''url'' = Inr u)"
proof -
  obtain p j where "r = AList.update ''rank'' (CInt j) (score_row analyzer p)"
    using top10_rows[OF assms] by blast
  then show ?thesis
    by (simp add: getitem_def score_row_def)
qed

lemma analyze_papers_fail:
  assumes "\<forall>r\<in>set rs. (\<exists>t. getitem r ''title'' = Inr t) \<and> (\<exists>v. getitem r ''published'' = Inr v)
                      \<and> (\<exists>u. getitem r ''url'' = Inr u)"
      and "\<exists>r\<in>set rs. \<exists>e. analyze r = Inl e"
  shows "\<exists>r'\<in>set rs. \<exists>e'. analyze r' = Inl e' \<and> snd (analyze_papers analyze rs acc) = Inl e'"
  using assms
proof (induction rs arbitrary: acc)
  case Nil
  then show ?case by simp
next
  case (Cons r rs)
  obtain t v u where keys: "getitem r ''title'' = Inr t" "getitem r ''published'' = Inr v"
      "getitem r ''url'' = Inr u"
    using Cons.prems(1) by auto
  show ?case
  proof (cases "analyze r")
    case (Inl e)
    have "snd (analyze_papers analyze (r # rs) acc) = Inl e"
      by (simp add: keys Inl)
    then show ?thesis
      using Inl by (intro bexI[of _ r] exI[of _ e]) simp_all
  next
    case (Inr res)
    let ?acc = "acc @ [AList.update ''html_url'' u (AList.update ''submission_date'' v res)]"
    have keys': "\<forall>r\<in>set rs. (\<exists>t. getitem r ''title'' = Inr t) \<and> (\<exists>v. getitem r ''published'' = Inr v)
                      \<and> (\<exists>u. getitem r ''url'' = Inr u)"
      using Cons.prems(1) by simp
    have "\<exists>r\<in>set rs. \<exists>e. analyze r = Inl e"
      using Cons.prems(2) Inr by auto
    then obtain r' e' where r': "r' \<in> set rs" "analyze r' = Inl e'"
        "snd (analyze_papers analyze rs ?acc) = Inl e'"
      using Cons.IH[OF keys', of ?acc] by blast
    have "snd (analyze_papers analyze (r # rs) acc) = snd (analyze_papers analyze rs ?acc)"
      by (simp add: keys Inr split: prod.splits)
    then show ?thesis
      using r' by (intro bexI[of _ r'] exI[of _ e']) simp_all
  qed
qed

text \<open>
  C7. In a run in which the collector returns a list and \<^verbatim>\<open>paper_analyzer.analyze_paper\<close>
  raises for one of the top 10, no JSON file is written, the renderer is not called, the mailer
  is not called, and the last thing the run does is to print the exception of such a failing
  analysis.
\<close>

theorem analysis_failure_aborts_run:
  assumes "snd (get_specific_date_papers (run_target_date env) (client_results env)) = Inr ps"
      and "r \<in> set (snd (save_top10 ps (quality_score env) (run_target_date env) (now_csv env)))"
      and "analyze_paper env r = Inl e"
  shows "filter is_json_write (run_daily_top10 env) = []
       \<and> filter is_report (run_daily_top10 env) = []
       \<and> filter is_email (run_daily_top10 env) = []
       \<and> (\<exists>r'\<in>set (snd (save_top10 ps (quality_score env) (run_target_date env) (now_csv env))).
            \<exists>e'. analyze_paper env r' = Inl e' \<and> last (run_daily_top10 env) = Print (MsgError e'))"
proof -
  let ?td = "run_target_date env"
  obtain ev0 where coll: "get_specific_date_papers ?td (client_results env) = (ev0, Inr ps)"
    using assms(1) by (cases "get_specific_date_papers ?td (client_results env)") auto
  obtain ev1 top where save: "save_top10 ps (quality_score env) ?td (now_csv env) = (ev1, top)"
    by (cases "save_top10 ps (quality_score env) ?td (now_csv env)")
  have keys: "\<forall>r\<in>set top. (\<exists>t. getitem r ''title'' = Inr t) \<and> (\<exists>v. getitem r ''published'' = Inr v)
                      \<and> (\<exists>u. getitem r ''url'' = Inr u)"
    using top10_getitem[of _ ps "quality_score env" ?td "now_csv env"] save by simp
  have "\<exists>r\<in>set top. \<exists>e. analyze_paper env r = Inl e"
    using assms(2,3) save by auto
  then obtain r' e' where r': "r' \<in> set top" "analyze_paper env r' = Inl e'"
      and res: "snd (analyze_papers (analyze_paper env) top []) = Inl e'"
    using analyze_papers_fail[OF keys, of "analyze_paper env" "[]"] by blast
  obtain ev2 where an: "analyze_papers (analyze_paper env) top [] = (ev2, Inl e')"
    using res by (cases "analyze_papers (analyze_paper env) top []") auto
  have run: "run_daily_top10 env =
      Print (MsgFetching ?td) # ev0 @ Print (MsgTotal (length ps)) #
        ([Print MsgAnalyzing, MakeDirs ''data/analysis'', MakeDirs ''config''] @ ev1) @ ev2
        @ [Print (MsgError e')]"
    by (simp add: run_daily_top10_def analyze_and_generate_report_def coll save an Let_def)
  have q0: "\<forall>ev\<in>set ev0. \<not> reporting ev"
    using collect_quiet[of _ ?td "client_results env"] coll by simp
  have q1: "\<forall>ev\<in>set ev1. \<not> reporting ev"
    using save_top10_quiet[of _ ps "quality_score env" ?td "now_csv env"] save by simp
  have q2: "\<forall>ev\<in>set ev2. \<not> reporting ev"
    using analyze_papers_quiet[of _ "analyze_paper env" top "[]"] an by simp
  have quiet: "\<forall>ev\<in>set (run_daily_top10 env). \<not> reporting ev"
    using q0 q1 q2 unfolding run by (auto simp: reporting_def)
  have f1: "filter is_json_write (run_daily_top10 env) = []"
    using quiet by (auto simp: filter_empty_conv reporting_def)
  have f2: "filter is_report (run_daily_top10 env) = []"
    using quiet by (auto simp: filter_empty_conv reporting_def)
  have f3: "filter is_email (run_daily_top10 env) = []"
    using quiet by (auto simp: filter_empty_conv reporting_def)
  have l: "last (run_daily_top10 env) = Print (MsgError e')"
    unfolding run by simp
  show ?thesis
    using f1 f2 f3 l r' save by auto
qed

text \<open>A run on two papers in which the analysis of the second of the top 10 raises.\<close>

theorem analysis_failure_aborts_run_witness:
  "filter is_json_write (run_daily_top10 (sample_env
      (feed_of [sample_paper ''a'' 1710500000000000, sample_paper ''b'' 1710510000000000] Stop))) = []
   \<and> filter is_report (run_daily_top10 (sample_env
      (feed_of [sample_paper ''a'' 1710500000000000, sample_paper ''b'' 1710510000000000] Stop))) = []
   \<and> filter is_email (run_daily_top10 (sample_env
      (feed_of [sample_paper ''a'' 1710500000000000, sample_paper ''b'' 1710510000000000] Stop))) = []
   \<and> last (run_daily_top10 (sample_env
      (feed_of [sample_paper ''a'' 1710500000000000, sample_paper ''b'' 1710510000000000] Stop)))
       = Print (MsgError (Exn ''boom''))"
proof -
  let ?ps = "[sample_paper ''a'' 1710500000000000, sample_paper ''b'' 1710510000000000]"
  let ?env = "sample_env (feed_of ?ps Stop)"
  let ?r = "snd (save_top10 ?ps (quality_score ?env) (run_target_date ?env) (now_csv ?env)) ! 1"
  have h1: "snd (get_specific_date_papers (run_target_date ?env) (client_results ?env)) = Inr ?ps"
    by code_simp
  have h2: "?r \<in> set (snd (save_top10 ?ps (quality_score ?env) (run_target_date ?env) (now_csv ?env)))"
    by code_simp
  have h3: "analyze_paper ?env ?r = Inl (Exn ''boom'')"
    by code_simp
  have l: "last (run_daily_top10 ?env) = Print (MsgError (Exn ''boom''))"
    by code_simp
  show ?thesis
    using analysis_failure_aborts_run[OF h1 h2 h3] l by simp
qed

text \<open>
  C10. In a run in which the collector returns the empty list, the effects are those listed
  below: after the (column-less) CSV file, the JSON file is written with the empty array, the
  renderer is called with the empty list and, when it returns, the mailer is called with the
  empty list. So there is exactly one JSON write and one call of the renderer in every such run,
  and one call of the mailer in every such run whose renderer returns; no step asks whether
  there are entries.
\<close>

theorem empty_run_reports:
  assumes "snd (get_specific_date_papers (run_target_date env) (client_results env)) = Inr []"
  shows "run_daily_top10 env =
           Print (MsgFetching (run_target_date env))
           # fst (get_specific_date_papers (run_target_date env) (client_results env))
           @ [Print (MsgTotal 0), Print MsgAnalyzing, MakeDirs ''data/analysis'', MakeDirs ''config'',
              Print (MsgTop10 (run_target_date env)), Print MsgTableHeader, Print MsgRule,
              MakeDirs ''data/daily_top10'',
              WriteFile (''data/daily_top10/top10_'' @ strftime_Ymd (now_csv env) @ ''.csv'')
                (Csv \<lparr>columns = [], cells = []\<rparr>),
              Print (MsgCsvSaved (''data/daily_top10/top10_'' @ strftime_Ymd (now_csv env) @ ''.csv'')),
              WriteFile (''data/analysis/analysis_results_'' @ strftime_Ymd_HMS (now_json env) @ ''.json'')
                (Json []),
              Print (MsgAnalysisSaved
                (''data/analysis/analysis_results_'' @ strftime_Ymd_HMS (now_json env) @ ''.json'')),
              Print MsgHtml,
              GenerateReport []]
           @ (case generate_report env [] of
                Inl e \<Rightarrow> [Print (MsgError e)]
              | Inr report_file \<Rightarrow>
                  [Print (MsgHtmlDone report_file), Print MsgEmail, SendReport []]
                  @ (case send_report env [] of Some e \<Rightarrow> [Print (MsgError e)] | None \<Rightarrow> []))
       \<and> filter is_json_write (run_daily_top10 env) =
           [WriteFile (''data/analysis/analysis_results_'' @ strftime_Ymd_HMS (now_json env) @ ''.json'')
              (Json [])]
       \<and> filter is_report (run_daily_top10 env) = [GenerateReport []]
       \<and> (\<forall>report_file. generate_report env [] = Inr report_file \<longrightarrow>
            filter is_email (run_daily_top10 env) = [SendReport []])"
proof -
  let ?td = "run_target_date env"
  obtain ev0 where coll: "get_specific_date_papers ?td (client_results env) = (ev0, Inr [])"
    using assms by (cases "get_specific_date_papers ?td (client_results env)") auto
  have q0: "\<forall>ev\<in>set ev0. \<not> reporting ev"
    using collect_quiet[of _ ?td "client_results env"] coll by simp
  then have f0: "filter is_json_write ev0 = []" "filter is_report ev0 = []" "filter is_email ev0 = []"
    by (auto simp: filter_empty_conv reporting_def)
  have save: "save_top10 [] (quality_score env) ?td (now_csv env) =
     ([Print (MsgTop10 ?td), Print MsgTableHeader, Print MsgRule, MakeDirs ''data/daily_top10'',
       WriteFile (''data/daily_top10/top10_'' @ strftime_Ymd (now_csv env) @ ''.csv'')
         (Csv \<lparr>columns = [], cells = []\<rparr>),
       Print (MsgCsvSaved (''data/daily_top10/top10_'' @ strftime_Ymd (now_csv env) @ ''.csv''))], [])"
    by (simp add: save_top10_def Let_def sort_reverse_def DataFrame_def)
  have run: "run_daily_top10 env =
           Print (MsgFetching ?td) # ev0
           @ [Print (MsgTotal 0), Print MsgAnalyzing, MakeDirs ''data/analysis'', MakeDirs ''config'',
              Print (MsgTop10 ?td), Print MsgTableHeader, Print MsgRule,
              MakeDirs ''data/daily_top10'',
              WriteFile (''data/daily_top10/top10_'' @ strftime_Ymd (now_csv env) @ ''.csv'')
                (Csv \<lparr>columns = [], cells = []\<rparr>),
              Print (MsgCsvSaved (''data/daily_top10/top10_'' @ strftime_Ymd (now_csv env) @ ''.csv'')),
              WriteFile (''data/analysis/analysis_results_'' @ strftime_Ymd_HMS (now_json env) @ ''.json'')
                (Json []),
              Print (MsgAnalysisSaved
                (''data/analysis/analysis_results_'' @ strftime_Ymd_HMS (now_json env) @ ''.json'')),
              Print MsgHtml,
              GenerateReport []]
           @ (case generate_report env [] of
                Inl e \<Rightarrow> [Print (MsgError e)]
              | Inr report_file \<Rightarrow>
                  [Print (MsgHtmlDone report_file), Print MsgEmail, SendReport []]
                  @ (case send_report env [] of Some e \<Rightarrow> [Print (MsgError e)] | None \<Rightarrow> []))"
    by (simp add: run_daily_top10_def analyze_and_generate_report_def coll save Let_def
             split: sum.splits option.splits)
  have j: "filter is_json_write (run_daily_top10 env) =
           [WriteFile (''data/analysis/analysis_results_'' @ strftime_Ymd_HMS (now_json env) @ ''.json'')
              (Json [])]"
    unfolding run using f0 by (simp split: sum.splits option.splits)
  have g: "filter is_report (run_daily_top10 env) = [GenerateReport []]"
    unfolding run using f0 by (simp split: sum.splits option.splits)
  have m: "\<forall>report_file. generate_report env [] = Inr report_file \<longrightarrow>
            filter is_email (run_daily_top10 env) = [SendReport []]"
    unfolding run using f0 by (simp split: sum.splits option.splits)
  show ?thesis
    using run j g m coll by simp
qed

text \<open>A run against a feed that yields nothing.\<close>

theorem empty_run_reports_witness:
  "run_daily_top10 (sample_env Stop) =
     [Print (MsgFetching 19797), Print (MsgTotal 0), Print MsgAnalyzing,
      MakeDirs ''data/analysis'', MakeDirs ''config'', Print (MsgTop10 19797),
      Print MsgTableHeader, Print MsgRule, MakeDirs ''data/daily_top10'',
      WriteFile ''data/daily_top10/top10_20240316.csv'' (Csv \<lparr>columns = [], cells = []\<rparr>),
      Print (MsgCsvSaved ''data/daily_top10/top10_20240316.csv''),
      WriteFile ''data/analysis/analysis_results_20240316_234001.json'' (Json []),
      Print (MsgAnalysisSaved ''data/analysis/analysis_results_20240316_234001.json''),
      Print MsgHtml, GenerateReport [], Print (MsgHtmlDone ''report.html''),
      Print MsgEmail, SendReport []]
   \<and> filter is_report (run_daily_top10 (sample_env Stop)) = [GenerateReport []]
   \<and> filter is_email (run_daily_top10 (sample_env Stop)) = [SendReport []]"
proof -
  have h: "snd (get_specific_date_papers (run_target_date (sample_env Stop))
                 (client_results (sample_env Stop))) = Inr []"
    by code_simp
  have g: "generate_report (sample_env Stop) [] = Inr ''report.html''"
    by (simp add: sample_env_def)
  have r: "run_daily_top10 (sample_env Stop) =
     [Print (MsgFetching 19797), Print (MsgTotal 0), Print MsgAnalyzing,
      MakeDirs ''data/analysis'', MakeDirs ''config'', Print (MsgTop10 19797),
      Print MsgTableHeader, Print MsgRule, MakeDirs ''data/daily_top10'',
      WriteFile ''data/daily_top10/top10_20240316.csv'' (Csv \<lparr>columns = [], cells = []\<rparr>),
      Print (MsgCsvSaved ''data/daily_top10/top10_20240316.csv''),
      WriteFile ''data/analysis/analysis_results_20240316_234001.json'' (Json []),
      Print (MsgAnalysisSaved ''data/analysis/analysis_results_20240316_234001.json''),
      Print MsgHtml, GenerateReport [], Print (MsgHtmlDone ''report.html''),
      Print MsgEmail, SendReport []]"
    by code_simp
  have "filter is_report (run_daily_top10 (sample_env Stop)) = [GenerateReport []]
      \<and> filter is_email (run_daily_top10 (sample_env Stop)) = [SendReport []]"
    using empty_run_reports[OF h] g by blast
  then show ?thesis
    using r by blast
qed

end
